theory Spec2Isabelle
  imports Complex_Main
begin

text \<open>
  A shallow embedding of impedance.py: the circuit model classes of \<^verbatim>\<open>circuits.py\<close>
  (\<^verbatim>\<open>BaseCircuit\<close>, \<^verbatim>\<open>Randles\<close>, \<^verbatim>\<open>CustomCircuit\<close> with \<^verbatim>\<open>fit\<close>, \<^verbatim>\<open>predict\<close>
  and \<^verbatim>\<open>get_param_names\<close>) and the JSON export and import of \<^verbatim>\<open>model_io.py\<close>.
  Exceptions are values of a sum type, the objects that \<^verbatim>\<open>fit\<close> mutates live in a
  store, and the files that export and import touch live in a file system. The module
  \<^verbatim>\<open>fitting.py\<close> (the parser, the evaluator and the fitting engine) is not among the
  sources: its functions are parameters of the functions that call them. Plotting,
  \<^verbatim>\<open>__str__\<close> and what is printed are not modelled.
\<close>

section \<open>Python and NumPy values\<close>

text \<open>
  The classes and the import and export move numbers around and test their types with
  \<^verbatim>\<open>isinstance\<close>; they do no arithmetic on them. A scalar is therefore a tagged
  value: the tag is the Python or NumPy type the source tests, the payload is the
  number. Floats are represented by the reals they denote.
\<close>

datatype scalar =
    PyFloat real
  | PyInt int
  | PyComplex complex
  | NpFloat64 real
  | NpInt32 int
  | NpInt64 int
  | NpComplex128 complex

text \<open>
  \<^verbatim>\<open>isinstance(x, (float, int, np.int32, np.float64))\<close>, the test of
  \<^verbatim>\<open>BaseCircuit.__init__\<close>, \<^verbatim>\<open>fit\<close> and \<^verbatim>\<open>predict\<close>.
\<close>

fun is_number :: "scalar \<Rightarrow> bool" where
  "is_number (PyFloat _) = True"
| "is_number (PyInt _) = True"
| "is_number (NpInt32 _) = True"
| "is_number (NpFloat64 _) = True"
| "is_number _ = False"

text \<open>\<^verbatim>\<open>isinstance(x, (complex, np.complex128))\<close>, the test of \<^verbatim>\<open>fit\<close> on the impedance.\<close>

fun is_complex :: "scalar \<Rightarrow> bool" where
  "is_complex (PyComplex _) = True"
| "is_complex (NpComplex128 _) = True"
| "is_complex _ = False"

text \<open>
  A one-dimensional \<^verbatim>\<open>np.ndarray\<close>: one dtype for all its elements. Indexing it gives
  the NumPy scalar of that dtype, \<^verbatim>\<open>tolist()\<close> the Python scalars.
\<close>

datatype ndarray =
    Float64 "real list"
  | Int32 "int list"
  | Int64 "int list"
  | Complex128 "complex list"

fun items :: "ndarray \<Rightarrow> scalar list" where
  "items (Float64 xs) = map NpFloat64 xs"
| "items (Int32 xs) = map NpInt32 xs"
| "items (Int64 xs) = map NpInt64 xs"
| "items (Complex128 xs) = map NpComplex128 xs"

fun tolist :: "ndarray \<Rightarrow> scalar list" where
  "tolist (Float64 xs) = map PyFloat xs"
| "tolist (Int32 xs) = map PyInt xs"
| "tolist (Int64 xs) = map PyInt xs"
| "tolist (Complex128 xs) = map PyComplex xs"

definition len :: "ndarray \<Rightarrow> nat" where
  "len a = length (items a)"

text \<open>What a caller can pass where the source expects an array.\<close>

datatype pyobject =
    Ndarray ndarray
  | PyList "scalar list"
  | PyNone

datatype error =
    AssertionError string
  | AttributeError string
  | IndexError string
  | TypeError string
  | ValueError string
  | FileNotFoundError string
  | JSONDecodeError
  | FittingError string
  | ConfigurationError string

text \<open>\<^verbatim>\<open>a[0]\<close> on an array: \<^verbatim>\<open>IndexError\<close> when it is empty.\<close>

definition getitem0 :: "ndarray \<Rightarrow> error + scalar" where
  "getitem0 a =
     (case items a of
        [] \<Rightarrow> Inl (IndexError ''index 0 is out of bounds for axis 0 with size 0'')
      | x # _ \<Rightarrow> Inr x)"

section \<open>The circuit model (circuits.py)\<close>

text \<open>
  The attributes of a \<^verbatim>\<open>BaseCircuit\<close> object. \<^verbatim>\<open>BaseCircuit.__init__\<close> does not set
  \<^verbatim>\<open>circuit\<close>: only the subclasses \<^verbatim>\<open>Randles\<close> and \<^verbatim>\<open>CustomCircuit\<close> do, so
  \<open>circuit m = None\<close> stands for an object without that attribute, on which reading
  \<^verbatim>\<open>self.circuit\<close> raises \<^verbatim>\<open>AttributeError\<close>. The source's attributes
  \<^verbatim>\<open>parameters_\<close> and \<^verbatim>\<open>conf_\<close> are the fields \<open>parameters'\<close> and \<open>conf'\<close>
  (a name cannot end with an underscore here); both are arrays of floats, or \<^verbatim>\<open>None\<close>.
\<close>

type_synonym bounds = "real list \<times> real list"

record model =
  circuit :: "string option"
  name :: "string option"
  initial_guess :: "scalar list option"
  algorithm :: string
  bounds :: "bounds option"
  parameters' :: "real list option"
  conf' :: "real list option"

text \<open>
  \<^verbatim>\<open>fitting.py\<close> is imported by \<^verbatim>\<open>circuits.py\<close> and is not part of the sources at
  hand. Its three functions are parameters of the functions that call them:
  \<^verbatim>\<open>calculateCircuitLength(circuit)\<close>, \<^verbatim>\<open>computeCircuit(circuit, parameters,
  frequencies)\<close> and \<^verbatim>\<open>circuit_fit(frequencies, impedance, circuit, initial_guess,
  algorithm, bounds=bounds)\<close>. Each may raise.
\<close>

type_synonym length_fn = "string \<Rightarrow> error + nat"

type_synonym evaluator = "string \<Rightarrow> scalar list option \<Rightarrow> scalar list \<Rightarrow> error + complex list"

record fit_request =
  req_frequencies :: ndarray
  req_impedance :: ndarray
  req_circuit :: string
  req_initial_guess :: "scalar list"
  req_algorithm :: string
  req_bounds :: "bounds option"

type_synonym engine = "fit_request \<Rightarrow> error + (real list \<times> real list option)"

subsection \<open>Constructors\<close>

text \<open>
  \<^verbatim>\<open>BaseCircuit.__init__(initial_guess=None, name=None, algorithm='leastsq',
  bounds=None)\<close>: every element of a supplied initial guess must be a number.
\<close>

definition BaseCircuit ::
  "scalar list option \<Rightarrow> string option \<Rightarrow> string \<Rightarrow> bounds option \<Rightarrow> error + model" where
  "BaseCircuit initial_guess0 name0 algorithm0 bounds0 =
     (if (case initial_guess0 of None \<Rightarrow> True | Some g \<Rightarrow> list_all is_number g)
      then Inr \<lparr>circuit = None, name = name0, initial_guess = initial_guess0,
                algorithm = algorithm0, bounds = bounds0,
                parameters' = None, conf' = None\<rparr>
      else Inl (AssertionError ''value {} in initial_guess is not a number''))"

text \<open>
  \<^verbatim>\<open>assert len(self.initial_guess) == circuit_length\<close>, after
  \<^verbatim>\<open>circuit_length = calculateCircuitLength(self.circuit)\<close>: \<^verbatim>\<open>len(None)\<close> is a
  \<^verbatim>\<open>TypeError\<close>.
\<close>

definition check_length :: "length_fn \<Rightarrow> string \<Rightarrow> model \<Rightarrow> error + model" where
  "check_length calculateCircuitLength msg m =
     (case circuit m of
        None \<Rightarrow> Inl (AttributeError ''object has no attribute circuit'')
      | Some c \<Rightarrow>
          (case calculateCircuitLength c of
             Inl e \<Rightarrow> Inl e
           | Inr circuit_length \<Rightarrow>
               (case initial_guess m of
                  None \<Rightarrow> Inl (TypeError ''object of type NoneType has no len()'')
                | Some g \<Rightarrow>
                    if length g = circuit_length then Inr m
                    else Inl (AssertionError msg))))"

text \<open>\<^verbatim>\<open>Randles.__init__(CPE=False, **kwargs)\<close>: the name passed in is overwritten.\<close>

definition Randles ::
  "length_fn \<Rightarrow> bool \<Rightarrow> scalar list option \<Rightarrow> string option \<Rightarrow> string \<Rightarrow> bounds option
   \<Rightarrow> error + model" where
  "Randles calculateCircuitLength CPE initial_guess0 name0 algorithm0 bounds0 =
     (case BaseCircuit initial_guess0 name0 algorithm0 bounds0 of
        Inl e \<Rightarrow> Inl e
      | Inr self \<Rightarrow>
          if CPE then
            check_length calculateCircuitLength
              ''Initial guess length needs to be equal to parameter length''
              (self\<lparr>name := Some ''Randles w/ CPE'',
                    circuit := Some ''R_0-p(R_1,E_1/E_2)-W_1/W_2''\<rparr>)
          else
            check_length calculateCircuitLength
              ''Initial guess length needs to be equal to parameter length''
              (self\<lparr>name := Some ''Randles'',
                    circuit := Some ''R_0-p(R_1,C_1)-W_1/W_2''\<rparr>))"

text \<open>\<^verbatim>\<open>CustomCircuit.__init__(circuit=None, **kwargs)\<close>, for a circuit string.\<close>

definition CustomCircuit ::
  "length_fn \<Rightarrow> string \<Rightarrow> scalar list option \<Rightarrow> string option \<Rightarrow> string \<Rightarrow> bounds option
   \<Rightarrow> error + model" where
  "CustomCircuit calculateCircuitLength circuit0 initial_guess0 name0 algorithm0 bounds0 =
     (case BaseCircuit initial_guess0 name0 algorithm0 bounds0 of
        Inl e \<Rightarrow> Inl e
      | Inr self \<Rightarrow>
          check_length calculateCircuitLength
            ''Initial guess length needs to be equal to {circuit_length}''
            (self\<lparr>circuit := Some circuit0\<rparr>))"

subsection \<open>fit\<close>

text \<open>
  \<^verbatim>\<open>fit\<close> mutates \<^verbatim>\<open>self\<close> and returns it, so objects live in a store: a reference
  is an address, and the store gives the attributes of the object at each address. The
  state also records every call of the fitting engine \<^verbatim>\<open>circuit_fit\<close>, in order, with
  the arguments it was called with. After the assertions, \<^verbatim>\<open>fit\<close> tests the initial
  guess, evaluates the arguments of the call (reading \<^verbatim>\<open>self.circuit\<close>), calls the
  engine, and assigns \<^verbatim>\<open>parameters_\<close>, and \<^verbatim>\<open>conf_\<close> if the engine returned one.
\<close>

type_synonym ref = nat

record state =
  objects :: "ref \<Rightarrow> model"
  solver_calls :: "fit_request list"

text \<open>
  The assertions at the head of \<^verbatim>\<open>fit\<close> and of \<^verbatim>\<open>predict\<close>, taken as executed
  (Python without \<^verbatim>\<open>-O\<close>): the two on the frequencies, which \<^verbatim>\<open>predict\<close> repeats,
  and the two on the impedance. An argument that passes is an array, and is returned as
  one. \<^verbatim>\<open>frequencies[0]\<close> and \<^verbatim>\<open>impedance[0]\<close> raise \<^verbatim>\<open>IndexError\<close> on an
  empty array, before the type of the element is tested.
\<close>

definition check_frequencies :: "pyobject \<Rightarrow> error + ndarray" where
  "check_frequencies frequencies =
     (case frequencies of
        Ndarray f \<Rightarrow>
          (case getitem0 f of
             Inl e \<Rightarrow> Inl e
           | Inr x \<Rightarrow>
               if is_number x then Inr f
               else Inl (AssertionError ''frequencies does not contain a number''))
      | _ \<Rightarrow> Inl (AssertionError ''frequencies is not of type np.ndarray''))"

definition check_impedance :: "pyobject \<Rightarrow> error + ndarray" where
  "check_impedance impedance =
     (case impedance of
        Ndarray z \<Rightarrow>
          (case getitem0 z of
             Inl e \<Rightarrow> Inl e
           | Inr x \<Rightarrow>
               if is_complex x then Inr z
               else Inl (AssertionError ''impedance does not contain complex numbers''))
      | _ \<Rightarrow> Inl (AssertionError ''impedance is not of type np.ndarray''))"

definition fit ::
  "engine \<Rightarrow> ref \<Rightarrow> pyobject \<Rightarrow> pyobject \<Rightarrow> state \<Rightarrow> (error + ref) \<times> state" where
  "fit circuit_fit self frequencies impedance s =
     (case check_frequencies frequencies of
        Inl e \<Rightarrow> (Inl e, s)
      | Inr f \<Rightarrow>
     (case check_impedance impedance of
        Inl e \<Rightarrow> (Inl e, s)
      | Inr z \<Rightarrow>
     if len f \<noteq> len z
     then (Inl (AssertionError ''mismatch in length of input frequencies and impedances''), s)
     else
     (case initial_guess (objects s self) of
        None \<Rightarrow> (Inl (ValueError ''no initial guess supplied''), s)
      | Some g \<Rightarrow>
     (case circuit (objects s self) of
        None \<Rightarrow> (Inl (AttributeError ''object has no attribute circuit''), s)
      | Some c \<Rightarrow>
          let request = \<lparr>req_frequencies = f, req_impedance = z, req_circuit = c,
                         req_initial_guess = g,
                         req_algorithm = algorithm (objects s self),
                         req_bounds = bounds (objects s self)\<rparr>;
              s1 = s\<lparr>solver_calls := solver_calls s @ [request]\<rparr>
          in
          (case circuit_fit request of
             Inl e \<Rightarrow> (Inl e, s1)
           | Inr (parameters, conf) \<Rightarrow>
               let m1 = (objects s1 self)\<lparr>parameters' := Some parameters\<rparr>;
                   m2 = (case conf of None \<Rightarrow> m1 | Some cf \<Rightarrow> m1\<lparr>conf' := Some cf\<rparr>)
               in (Inr self, s1\<lparr>objects := (objects s1)(self := m2)\<rparr>))))))"

subsection \<open>predict\<close>

text \<open>\<^verbatim>\<open>_is_fit\<close>: the model has been fit when \<^verbatim>\<open>parameters_\<close> is not \<^verbatim>\<open>None\<close>.\<close>

definition is_fit :: "model \<Rightarrow> bool" where
  "is_fit m = (if parameters' m \<noteq> None then True else False)"

text \<open>
  \<^verbatim>\<open>predict(frequencies, use_initial=False)\<close> reads the object and changes nothing.
  In the first branch \<^verbatim>\<open>self.parameters_.tolist()\<close> turns the fitted array into a list
  of Python floats.
\<close>

definition predict :: "evaluator \<Rightarrow> model \<Rightarrow> pyobject \<Rightarrow> bool \<Rightarrow> error + complex list" where
  "predict computeCircuit m frequencies use_initial =
     (case check_frequencies frequencies of
        Inl e \<Rightarrow> Inl e
      | Inr f \<Rightarrow>
          if is_fit m \<and> \<not> use_initial then
            (case circuit m of
               None \<Rightarrow> Inl (AttributeError ''object has no attribute circuit'')
             | Some c \<Rightarrow>
                 computeCircuit c (map_option (map PyFloat) (parameters' m)) (tolist f))
          else
            (case circuit m of
               None \<Rightarrow> Inl (AttributeError ''object has no attribute circuit'')
             | Some c \<Rightarrow> computeCircuit c (initial_guess m) (tolist f)))"

subsection \<open>get\_param\_names\<close>

text \<open>
  Python's \<^verbatim>\<open>str.replace(old, new)\<close> for a one-character \<^verbatim>\<open>old\<close> and a \<^verbatim>\<open>new\<close> that is
  empty or one character, and \<^verbatim>\<open>str.split(sep)\<close> for a one-character separator:
  every separator ends a piece, so the result is never empty and
  \<^verbatim>\<open>''.split('-') == ['']\<close>.
\<close>

definition remove_char :: "char \<Rightarrow> string \<Rightarrow> string" where
  "remove_char c s = filter (\<lambda>x. x \<noteq> c) s"

definition replace_char :: "char \<Rightarrow> char \<Rightarrow> string \<Rightarrow> string" where
  "replace_char c d s = map (\<lambda>x. if x = c then d else x) s"

fun split :: "char \<Rightarrow> string \<Rightarrow> string list" where
  "split sep [] = [[]]"
| "split sep (x # xs) =
     (if x = sep then [] # split sep xs
      else (case split sep xs of
              [] \<Rightarrow> [[x]]
            | piece # pieces \<Rightarrow> (x # piece) # pieces))"

text \<open>
  \<^verbatim>\<open>names = self.circuit.replace('p', '').replace('(', '').replace(')', '')\<close>, then
  \<^verbatim>\<open>names.replace(',', '-').replace('/', '-').split('-')\<close>.
\<close>

definition get_param_names :: "string \<Rightarrow> string list" where
  "get_param_names circuit0 =
     (let names = remove_char (CHR '')'')
                    (remove_char (CHR ''('') (remove_char (CHR ''p'') circuit0))
      in split (CHR ''-'')
           (replace_char (CHR ''/'') (CHR ''-'') (replace_char (CHR '','') (CHR ''-'') names)))"

section \<open>JSON export and import (model\_io.py)\<close>

text \<open>
  Python's \<^verbatim>\<open>fmt % arg\<close> for a single \<^verbatim>\<open>str\<close> argument and a format whose
  conversions are \<^verbatim>\<open>%s\<close> and \<^verbatim>\<open>%%\<close>, the only ones the source uses. The second
  argument is the argument still to be consumed. An argument left over at the end of the
  format is a \<^verbatim>\<open>TypeError\<close>, and so is a \<^verbatim>\<open>%s\<close> with no argument left.
\<close>

fun percent :: "string \<Rightarrow> string option \<Rightarrow> error + string" where
  "percent [] arg =
     (case arg of
        None \<Rightarrow> Inr []
      | Some _ \<Rightarrow> Inl (TypeError ''not all arguments converted during string formatting''))"
| "percent [c] arg =
     (if c = CHR ''%'' then Inl (ValueError ''incomplete format'')
      else map_sum id ((#) c) (percent [] arg))"
| "percent (c # d # rest) arg =
     (if c \<noteq> CHR ''%'' then map_sum id ((#) c) (percent (d # rest) arg)
      else if d = CHR ''s'' then
        (case arg of
           None \<Rightarrow> Inl (TypeError ''not enough arguments for format string'')
         | Some a \<Rightarrow> map_sum id ((@) a) (percent rest None))
      else if d = CHR ''%'' then map_sum id ((#) c) (percent rest arg)
      else Inl (ValueError ''unsupported format character''))"

text \<open>
  A JSON number as Python's \<^verbatim>\<open>json\<close> module writes and reads it: an \<^verbatim>\<open>int\<close> stays
  an \<^verbatim>\<open>int\<close>, a \<^verbatim>\<open>float\<close> a \<^verbatim>\<open>float\<close>. \<^verbatim>\<open>np.float64\<close> is a subclass of
  \<^verbatim>\<open>float\<close> and is written as one; the other NumPy scalars and complex numbers are
  not JSON serializable.
\<close>

datatype jnum = JInt int | JFloat real

fun to_json :: "scalar \<Rightarrow> error + jnum" where
  "to_json (PyFloat r) = Inr (JFloat r)"
| "to_json (PyInt i) = Inr (JInt i)"
| "to_json (NpFloat64 r) = Inr (JFloat r)"
| "to_json _ = Inl (TypeError ''Object is not JSON serializable'')"

text \<open>A number that \<^verbatim>\<open>json.load\<close> has read, as the Python value it is.\<close>

fun of_json :: "jnum \<Rightarrow> scalar" where
  "of_json (JInt i) = PyInt i"
| "of_json (JFloat r) = PyFloat r"

text \<open>
  \<^verbatim>\<open>np.array(xs)\<close> on a list of numbers that \<^verbatim>\<open>json.load\<close> has read: the array of
  their values.
\<close>

fun np_value :: "jnum \<Rightarrow> real" where
  "np_value (JInt i) = real_of_int i"
| "np_value (JFloat r) = r"

text \<open>
  The dictionary \<^verbatim>\<open>data_dict\<close> that \<^verbatim>\<open>model_export\<close> writes, with its five keys
  \<^verbatim>\<open>"Name"\<close>, \<^verbatim>\<open>"Circuit String"\<close>, \<^verbatim>\<open>"Initial Guess"\<close>, \<^verbatim>\<open>"Parameters"\<close> and
  \<^verbatim>\<open>"Confidence"\<close>; the last three are lists of (name, value) pairs. A file holds
  the JSON text of such a dictionary, or a text that \<^verbatim>\<open>json.dump\<close> did not complete.
\<close>

record data_dict =
  Name :: string
  Circuit_String :: string
  Initial_Guess :: "(string \<times> jnum) list"
  Parameters :: "(string \<times> jnum) list"
  Confidence :: "(string \<times> jnum) list"

datatype file_content = Json data_dict | Truncated

type_synonym filesystem = "string \<Rightarrow> file_content option"

text \<open>
  \<^verbatim>\<open>[(name, xs[index]) for index, name in enumerate(names)]\<close>: subscripting \<^verbatim>\<open>None\<close>
  is a \<^verbatim>\<open>TypeError\<close>, an index past the end an \<^verbatim>\<open>IndexError\<close>.
\<close>

definition pairs :: "string list \<Rightarrow> 'a list option \<Rightarrow> error + (string \<times> 'a) list" where
  "pairs names xs =
     (if names = [] then Inr []
      else
        (case xs of
           None \<Rightarrow> Inl (TypeError ''object of type NoneType is not subscriptable'')
         | Some ys \<Rightarrow>
             if length names \<le> length ys then Inr (zip names ys)
             else Inl (IndexError ''index out of range'')))"

text \<open>\<^verbatim>\<open>json.dump\<close> on the pairs of the initial guess: the first value it cannot write raises.\<close>

fun dump_pairs :: "(string \<times> scalar) list \<Rightarrow> error + (string \<times> jnum) list" where
  "dump_pairs [] = Inr []"
| "dump_pairs ((n, v) # rest) =
     (case to_json v of
        Inl e \<Rightarrow> Inl e
      | Inr j \<Rightarrow> map_sum id ((#) (n, j)) (dump_pairs rest))"

text \<open>
  \<^verbatim>\<open>model_export(model, filepath)\<close>. The three comprehensions run before the file is
  opened. \<^verbatim>\<open>print(model)\<close> is reached only by a model whose \<^verbatim>\<open>parameters_\<close> and
  \<^verbatim>\<open>conf_\<close> are set, for which \<^verbatim>\<open>__str__\<close> formats the fitted parameters and does
  not raise; what is printed is not part of the model. \<^verbatim>\<open>open(filepath, 'w')\<close>
  creates or empties the file, and a \<^verbatim>\<open>json.dump\<close> that raises leaves it incomplete.
\<close>

definition model_export :: "model \<Rightarrow> string \<Rightarrow> filesystem \<Rightarrow> (error + unit) \<times> filesystem" where
  "model_export m filepath fs =
     (case circuit m of
        None \<Rightarrow> (Inl (AttributeError ''object has no attribute circuit''), fs)
      | Some model_string \<Rightarrow>
     let model_param_names = get_param_names model_string in
     (case pairs model_param_names (initial_guess m) of
        Inl e \<Rightarrow> (Inl e, fs)
      | Inr model_initial_guess \<Rightarrow>
     (case pairs model_param_names (parameters' m) of
        Inl e \<Rightarrow> (Inl e, fs)
      | Inr model_params \<Rightarrow>
     (case pairs model_param_names (conf' m) of
        Inl e \<Rightarrow> (Inl e, fs)
      | Inr model_conf \<Rightarrow>
     let model_name = (case name m of
                         None \<Rightarrow> ''None''
                       | Some n \<Rightarrow> if n = [] then ''None'' else n) in
     (case percent ''Exporting the following model to destination %s'' (Some filepath) of
        Inl e \<Rightarrow> (Inl e, fs)
      | Inr _ \<Rightarrow>
     (case dump_pairs model_initial_guess of
        Inl e \<Rightarrow> (Inl e, fs(filepath \<mapsto> Truncated))
      | Inr ig \<Rightarrow>
          (Inr (),
           fs(filepath \<mapsto> Json \<lparr>Name = model_name, Circuit_String = model_string,
                Initial_Guess = ig,
                Parameters = map (\<lambda>(n, v). (n, JFloat v)) model_params,
                Confidence = map (\<lambda>(n, v). (n, JFloat v)) model_conf\<rparr>))))))))"

text \<open>
  \<^verbatim>\<open>model_import(filepath, as_initial_guess=False)\<close>, up to the point where
  \<^verbatim>\<open>circuit_model\<close> is complete (lines 68 to 96). The confidence list is read under
  the key \<^verbatim>\<open>"Initial Guess"\<close>, as the source has it. \<^verbatim>\<open>CustomCircuit\<close> is called
  with its default algorithm and bounds.
\<close>

definition build_circuit_model ::
  "length_fn \<Rightarrow> string \<Rightarrow> bool \<Rightarrow> filesystem \<Rightarrow> error + model" where
  "build_circuit_model calculateCircuitLength filepath as_initial_guess fs =
     (case fs filepath of
        None \<Rightarrow> Inl (FileNotFoundError filepath)
      | Some Truncated \<Rightarrow> Inl JSONDecodeError
      | Some (Json json_data) \<Rightarrow>
          let circuit_name = (if Name json_data = ''None'' then None
                              else Some (Name json_data));
              circuit_string = Circuit_String json_data;
              circuit_param_list = Parameters json_data;
              circuit_ig_list = Initial_Guess json_data;
              circuit_conf_list = Initial_Guess json_data;
              circuit_params = map (\<lambda>item. snd item) circuit_param_list;
              circuit_initial_guess = map (\<lambda>item. snd item) circuit_ig_list;
              circuit_conf = map (\<lambda>item. snd item) circuit_conf_list
          in
          if as_initial_guess then
            CustomCircuit calculateCircuitLength circuit_string
              (Some (map of_json circuit_params)) circuit_name ''leastsq'' None
          else
            (case CustomCircuit calculateCircuitLength circuit_string
                    (Some (map of_json circuit_initial_guess)) circuit_name
                    ''leastsq'' None of
               Inl e \<Rightarrow> Inl e
             | Inr circuit_model \<Rightarrow>
                 Inr (circuit_model\<lparr>parameters' := Some (map np_value circuit_params),
                                    conf' := Some (map np_value circuit_conf)\<rparr>)))"

text \<open>
  The rest of \<^verbatim>\<open>model_import\<close>:
  \<^verbatim>\<open>print("Imported model from %s with" + "the following circuit parameters" % filepath)\<close>.
  \<^verbatim>\<open>%\<close> binds tighter than \<^verbatim>\<open>+\<close>, so the second literal alone is formatted with
  \<^verbatim>\<open>filepath\<close>, before the concatenation, the \<^verbatim>\<open>print\<close> and the \<^verbatim>\<open>return\<close>.
\<close>

definition model_import ::
  "length_fn \<Rightarrow> string \<Rightarrow> bool \<Rightarrow> filesystem \<Rightarrow> error + model" where
  "model_import calculateCircuitLength filepath as_initial_guess fs =
     (case build_circuit_model calculateCircuitLength filepath as_initial_guess fs of
        Inl e \<Rightarrow> Inl e
      | Inr circuit_model \<Rightarrow>
          (case percent ''the following circuit parameters'' (Some filepath) of
             Inl e \<Rightarrow> Inl e
           | Inr text2 \<Rightarrow> Inr circuit_model))"

section \<open>The circuit expression language\<close>

text \<open>
  Modelled from the spec: the element kinds of the Element Library, which is in
  \<^verbatim>\<open>fitting.py\<close> and not among the sources: "\<^verbatim>\<open>R\<close>=resistor, \<^verbatim>\<open>C\<close>=capacitor,
  \<^verbatim>\<open>E\<close>=constant-phase element, \<^verbatim>\<open>W\<close>=Warburg".
\<close>

datatype kind = Resistor | Capacitor | ConstantPhase | Warburg

text \<open>
  Modelled from the spec: the arity of a kind, "1 for R/C, 2 for E, 2 for W".
\<close>

fun arity :: "kind \<Rightarrow> nat" where
  "arity Resistor = 1"
| "arity Capacitor = 1"
| "arity ConstantPhase = 2"
| "arity Warburg = 2"

text \<open>
  Modelled from the spec: the letter that identifies a kind in an element name.
\<close>

fun letter :: "kind \<Rightarrow> char" where
  "letter Resistor = CHR ''R''"
| "letter Capacitor = CHR ''C''"
| "letter ConstantPhase = CHR ''E''"
| "letter Warburg = CHR ''W''"

text \<open>
  Modelled from the spec: the Parsed Circuit Structure of the Circuit Parser
  (\<^verbatim>\<open>fitting.py\<close>, not among the sources), "an ordered tree" of series nodes, parallel
  nodes and elements. An element carries the indices of its sub-parameter names:
  \<^verbatim>\<open>R_0\<close> is \<open>Element Resistor [0]\<close>, and \<^verbatim>\<open>W_1/W_2\<close>, one Warburg element with two
  sub-parameters, is \<open>Element Warburg [1, 2]\<close>.
\<close>

datatype circuit_tree =
    Element kind "nat list"
  | Series "circuit_tree list"
  | Parallel "circuit_tree list"

text \<open>
  Modelled from the spec: the invariants of a valid expression. An element has as many
  sub-parameters as its kind's arity, "parallel groups require \<open>\<ge>\<close> 2 branches", and
  "zero-length series segments are parse errors".
\<close>

fun valid :: "circuit_tree \<Rightarrow> bool" where
  "valid (Element k indices) = (length indices = arity k)"
| "valid (Series children) = (children \<noteq> [] \<and> list_all valid children)"
| "valid (Parallel branches) = (2 \<le> length branches \<and> list_all valid branches)"

text \<open>The decimal digits of an index.\<close>

fun decimal :: "nat \<Rightarrow> string" where
  "decimal n =
     (if n < 10 then [''0123456789'' ! n]
      else decimal (n div 10) @ [''0123456789'' ! (n mod 10)])"

declare decimal.simps [simp del]

text \<open>
  Modelled from the spec: the name of a sub-parameter, "elements are named
  \<^verbatim>\<open><Kind>_<index>\<close> (e.g. \<^verbatim>\<open>R_0\<close>, \<^verbatim>\<open>C_1\<close>, \<^verbatim>\<open>E_1\<close>)".
\<close>

definition param_name :: "kind \<Rightarrow> nat \<Rightarrow> string" where
  "param_name k i = letter k # CHR ''_'' # decimal i"

text \<open>Python's \<^verbatim>\<open>sep.join(xs)\<close>.\<close>

fun join :: "string \<Rightarrow> string list \<Rightarrow> string" where
  "join sep [] = []"
| "join sep [x] = x"
| "join sep (x # y # ys) = x @ sep @ join sep (y # ys)"

text \<open>
  Modelled from the spec: the text of an expression. "Series composition is \<^verbatim>\<open>-\<close>",
  "parallel composition is \<^verbatim>\<open>p(x,y,...)\<close> with comma-separated branches", and
  multi-parameter elements bind their sub-parameters "with a \<^verbatim>\<open>/\<close> separator".
\<close>

fun render :: "circuit_tree \<Rightarrow> string" where
  "render (Element k indices) = join ''/'' (map (param_name k) indices)"
| "render (Series children) = join ''-'' (map render children)"
| "render (Parallel branches) = ''p('' @ join '','' (map render branches) @ '')''"

text \<open>
  Modelled from the spec: the order of the Parameter Vector, "one per scalar
  sub-parameter, in the left-to-right, depth-first order the elements appear in the
  expression", as the names of those sub-parameters.
\<close>

fun parameter_order :: "circuit_tree \<Rightarrow> string list" where
  "parameter_order (Element k indices) = map (param_name k) indices"
| "parameter_order (Series children) = concat (map parameter_order children)"
| "parameter_order (Parallel branches) = concat (map parameter_order branches)"

text \<open>
  Modelled from the spec: the parameter count of a structure, "the sum of arities over
  all leaf elements found by a full structural walk, independent of nesting depth".
\<close>

fun arity_sum :: "circuit_tree \<Rightarrow> nat" where
  "arity_sum (Element k indices) = arity k"
| "arity_sum (Series children) = sum_list (map arity_sum children)"
| "arity_sum (Parallel branches) = sum_list (map arity_sum branches)"

text \<open>
  Modelled from the spec: the leaf elements of a structure as the expression writes
  them, left to right, a multi-parameter element being one \<^verbatim>\<open>/\<close>-joined group.
\<close>

fun leaf_text :: "circuit_tree \<Rightarrow> string list" where
  "leaf_text (Element k indices) = [join ''/'' (map (param_name k) indices)]"
| "leaf_text (Series children) = concat (map leaf_text children)"
| "leaf_text (Parallel branches) = concat (map leaf_text branches)"

text \<open>
  Modelled from the spec: the leaf elements of an expression text, for
  \<^verbatim>\<open>calculateCircuitLength\<close> below. They are found the way \<^verbatim>\<open>get_param_names\<close>
  finds the names, except that \<^verbatim>\<open>/\<close> stays, so that a \<^verbatim>\<open>/\<close>-joined group is one
  element.
\<close>

definition strip :: "string \<Rightarrow> string" where
  "strip circuit0 =
     replace_char (CHR '','') (CHR ''-'')
       (remove_char (CHR '')'') (remove_char (CHR ''('') (remove_char (CHR ''p'') circuit0)))"

definition leaf_elements :: "string \<Rightarrow> string list" where
  "leaf_elements circuit0 = split (CHR ''-'') (strip circuit0)"

text \<open>
  Modelled from the spec: the kind of an element as written, "identified by a single
  letter", its first; any other first letter is an "unknown element kind".
\<close>

definition kind_of :: "string \<Rightarrow> kind option" where
  "kind_of element =
     (case element of
        [] \<Rightarrow> None
      | c # _ \<Rightarrow>
          if c = CHR ''R'' then Some Resistor
          else if c = CHR ''C'' then Some Capacitor
          else if c = CHR ''E'' then Some ConstantPhase
          else if c = CHR ''W'' then Some Warburg
          else None)"

text \<open>
  Modelled from the spec: the sum of the arities of a list of elements; an unknown
  element kind is a "configuration error".
\<close>

fun total_arity :: "string list \<Rightarrow> error + nat" where
  "total_arity [] = Inr 0"
| "total_arity (e # es) =
     (case kind_of e of
        None \<Rightarrow> Inl (ConfigurationError ''unknown element kind'')
      | Some k \<Rightarrow> map_sum id ((+) (arity k)) (total_arity es))"

text \<open>
  Modelled from the spec: \<^verbatim>\<open>calculateCircuitLength\<close> of \<^verbatim>\<open>fitting.py\<close>, which is not
  among the sources, on the expression text: "the sum of arities of all elements in the
  expression". The parser's other checks (balanced parentheses, the number of branches
  of a parallel group) are not modelled.
\<close>

definition calculateCircuitLength :: "string \<Rightarrow> error + nat" where
  "calculateCircuitLength circuit0 = total_arity (leaf_elements circuit0)"

section \<open>Instances of the evaluator and of the fitting engine\<close>

text \<open>
  The real number a scalar stands for; a complex scalar stands for none.
\<close>

fun real_value :: "scalar \<Rightarrow> real option" where
  "real_value (PyFloat r) = Some r"
| "real_value (PyInt i) = Some (real_of_int i)"
| "real_value (NpFloat64 r) = Some r"
| "real_value (NpInt32 i) = Some (real_of_int i)"
| "real_value (NpInt64 i) = Some (real_of_int i)"
| "real_value (PyComplex z) = None"
| "real_value (NpComplex128 z) = None"

text \<open>
  Modelled from the spec: \<^verbatim>\<open>computeCircuit\<close> of \<^verbatim>\<open>fitting.py\<close>, which is not among
  the sources, for series connections of resistors only: "Resistor(R): Z = R (constant,
  independent of \<open>\<omega>\<close>)", "for a series node, sum child impedances elementwise",
  "returns one complex value per input frequency", and a "parameter vector length
  mismatch with the structure's expected count" is a configuration error. A circuit
  with other elements or with parallel groups needs the element library and is not
  evaluated by this definition.
\<close>

definition computeCircuit_series_R :: evaluator where
  "computeCircuit_series_R circuit0 parameters frequencies =
     (if list_all (\<lambda>e. kind_of e = Some Resistor) (split (CHR ''-'') circuit0) then
        (case parameters of
           None \<Rightarrow> Inl (ConfigurationError ''no parameter vector'')
         | Some ps \<Rightarrow>
             (case those (map real_value ps) of
                None \<Rightarrow> Inl (ConfigurationError ''parameter vector is not real'')
              | Some \<theta> \<Rightarrow>
                  if length \<theta> \<noteq> length (split (CHR ''-'') circuit0)
                  then Inl (ConfigurationError ''parameter vector length mismatch'')
                  else Inr (map (\<lambda>f. Complex (sum_list \<theta>) 0) frequencies)))
      else Inl (ConfigurationError ''not a series connection of resistors''))"

text \<open>
  Modelled from the spec: \<^verbatim>\<open>circuit_fit\<close> of \<^verbatim>\<open>fitting.py\<close>, which is not among the
  sources, in a run its contract "\<^verbatim>\<open>-> (parameter_vector,
  confidence_vector_or_none)\<close>" allows: the solver accepts the initial guess as the
  optimum, with a zero standard error per parameter (on noise-free data the fit is to
  "produce a confidence vector near zero").
\<close>

definition circuit_fit_converged :: engine where
  "circuit_fit_converged request =
     (case those (map real_value (req_initial_guess request)) of
        None \<Rightarrow> Inl (FittingError ''initial guess is not real'')
      | Some \<theta> \<Rightarrow> Inr (\<theta>, Some (map (\<lambda>x. 0) \<theta>)))"

text \<open>
  Modelled from the spec: \<^verbatim>\<open>circuit_fit\<close> in a run that accepts the initial guess as
  the optimum and has no covariance estimate: "if covariance is unavailable (e.g.
  singular Jacobian), the confidence output is absent rather than fabricated".
\<close>

definition circuit_fit_no_covariance :: engine where
  "circuit_fit_no_covariance request =
     (case those (map real_value (req_initial_guess request)) of
        None \<Rightarrow> Inl (FittingError ''initial guess is not real'')
      | Some \<theta> \<Rightarrow> Inr (\<theta>, None))"

text \<open>
  Modelled from the spec: \<^verbatim>\<open>circuit_fit\<close> in a run that fails: "solver non-convergence
  or a singular Jacobian raises a fitting-failure condition".
\<close>

definition circuit_fit_failed :: engine where
  "circuit_fit_failed request = Inl (FittingError ''solver did not converge'')"

section \<open>Models a program can hold\<close>

text \<open>
  A model object comes from one of the three constructors or from \<^verbatim>\<open>model_import\<close>,
  and only \<^verbatim>\<open>fit\<close> changes it afterwards.
\<close>

inductive reachable :: "length_fn \<Rightarrow> engine \<Rightarrow> model \<Rightarrow> bool"
  for calculateCircuitLength0 :: length_fn and circuit_fit :: engine where
  base: "BaseCircuit initial_guess0 name0 algorithm0 bounds0 = Inr m
         \<Longrightarrow> reachable calculateCircuitLength0 circuit_fit m"
| randles: "Randles calculateCircuitLength0 CPE initial_guess0 name0 algorithm0 bounds0 = Inr m
         \<Longrightarrow> reachable calculateCircuitLength0 circuit_fit m"
| custom: "CustomCircuit calculateCircuitLength0 circuit0 initial_guess0 name0 algorithm0 bounds0
           = Inr m
         \<Longrightarrow> reachable calculateCircuitLength0 circuit_fit m"
| imported: "model_import calculateCircuitLength0 filepath as_initial_guess fs = Inr m
         \<Longrightarrow> reachable calculateCircuitLength0 circuit_fit m"
| fitted: "reachable calculateCircuitLength0 circuit_fit (objects s self)
         \<Longrightarrow> fit circuit_fit self frequencies impedance s = (r, s')
         \<Longrightarrow> reachable calculateCircuitLength0 circuit_fit (objects s' self)"

text \<open>
  The input contract of \<^verbatim>\<open>fit\<close> in the spec's words: "frequencies are real-valued,
  impedance is complex-valued, equal length, non-empty", both of them arrays, and the
  model has "a pre-set ... initial guess".
\<close>

definition valid_fit_input :: "model \<Rightarrow> pyobject \<Rightarrow> pyobject \<Rightarrow> bool" where
  "valid_fit_input m frequencies impedance =
     (case (frequencies, impedance) of
        (Ndarray f, Ndarray z) \<Rightarrow>
          list_all is_number (items f) \<and> list_all is_complex (items z) \<and>
          len f = len z \<and> len f \<noteq> 0 \<and> initial_guess m \<noteq> None
      | _ \<Rightarrow> False)"

section \<open>Example objects\<close>

text \<open>
  Two resistors in series, fitted: the initial guess is 1 and 2 Ohm, the fitted values
  are 3 and 4 Ohm, with standard errors 0.5 and 0.25.
\<close>

definition fitted_model :: model where
  "fitted_model =
     \<lparr>circuit = Some ''R_0-R_1'', name = Some ''two resistors'',
      initial_guess = Some [PyFloat 1, PyFloat 2], algorithm = ''leastsq'', bounds = None,
      parameters' = Some [3, 4], conf' = Some [1/2, 1/4]\<rparr>"

text \<open>The same model before any fit.\<close>

definition unfitted_model :: model where
  "unfitted_model =
     \<lparr>circuit = Some ''R_0-R_1'', name = Some ''two resistors'',
      initial_guess = Some [PyFloat 1, PyFloat 2], algorithm = ''leastsq'', bounds = None,
      parameters' = None, conf' = None\<rparr>"

text \<open>\<^verbatim>\<open>BaseCircuit()\<close>: no circuit, no initial guess.\<close>

definition bare_model :: model where
  "bare_model =
     \<lparr>circuit = None, name = None, initial_guess = None, algorithm = ''leastsq'',
      bounds = None, parameters' = None, conf' = None\<rparr>"

text \<open>A store in which every reference holds \<open>m\<close>, before any call of the engine.\<close>

definition store :: "model \<Rightarrow> state" where
  "store m = \<lparr>objects = (\<lambda>r. m), solver_calls = []\<rparr>"

section \<open>Splitting and joining\<close>

lemma split_not_Nil: "split c s \<noteq> []"
  by (induction s) (auto split: list.split)

lemma split_no_sep: "c \<notin> set a \<Longrightarrow> split c a = [a]"
  by (induction a) auto

lemma split_append_sep: "c \<notin> set a \<Longrightarrow> split c (a @ c # b) = a # split c b"
  by (induction a) auto

lemma split_join:
  "ts \<noteq> [] \<Longrightarrow> (\<And>t. t \<in> set ts \<Longrightarrow> c \<notin> set t) \<Longrightarrow> split c (join [c] ts) = ts"
proof (induction ts rule: induct_list012)
  case 1
  then show ?case by simp
next
  case (2 x)
  then show ?case by (simp add: split_no_sep)
next
  case (3 x y zs)
  have "split c (join [c] (x # y # zs)) = x # split c (join [c] (y # zs))"
    using 3(4)[of x] by (simp add: split_append_sep)
  also have "split c (join [c] (y # zs)) = y # zs"
    using 3(2) 3(4) by simp
  finally show ?case .
qed

lemma join_Cons: "ys \<noteq> [] \<Longrightarrow> join sep (x # ys) = x @ sep @ join sep ys"
  by (cases ys) auto

lemma join_append:
  "xs \<noteq> [] \<Longrightarrow> ys \<noteq> [] \<Longrightarrow> join sep (xs @ ys) = join sep xs @ sep @ join sep ys"
proof (induction xs rule: induct_list012)
  case 1
  then show ?case by simp
next
  case (2 x)
  then show ?case by (simp add: join_Cons)
next
  case (3 x y zs)
  then show ?case by simp
qed

lemma join_concat:
  "(\<And>xs. xs \<in> set xss \<Longrightarrow> xs \<noteq> []) \<Longrightarrow>
   join sep (concat xss) = join sep (map (join sep) xss)"
proof (induction xss)
  case Nil
  then show ?case by simp
next
  case (Cons xs xss)
  show ?case
  proof (cases "xss = []")
    case True
    then show ?thesis by simp
  next
    case False
    then obtain ys yss where xss: "xss = ys # yss" by (cases xss) auto
    have ne: "concat xss \<noteq> []" using Cons.prems xss by auto
    have "join sep (concat (xs # xss)) = join sep xs @ sep @ join sep (concat xss)"
      using Cons.prems ne by (simp add: join_append)
    also have "join sep (concat xss) = join sep (map (join sep) xss)"
      using Cons by simp
    finally show ?thesis using False by (simp add: join_Cons)
  qed
qed

lemma map_filter_join:
  "map f (filter g (join sep xs)) = join (map f (filter g sep)) (map (\<lambda>x. map f (filter g x)) xs)"
  by (induction xs rule: induct_list012) auto

lemma decimal_digits: "set (decimal n) \<subseteq> set ''0123456789''"
proof (induction n rule: decimal.induct)
  case (1 n)
  have nth: "\<And>i. i < 10 \<Longrightarrow> ''0123456789'' ! i \<in> set ''0123456789''"
    by (rule nth_mem) simp
  show ?case
  proof (cases "n < 10")
    case True
    then show ?thesis using nth[of n] by (subst decimal.simps) simp
  next
    case False
    have "n mod 10 < 10" by simp
    then show ?thesis using False 1 nth[of "n mod 10"]
      by (subst decimal.simps) simp
  qed
qed

lemma decimal_clean: "c \<notin> set ''0123456789'' \<Longrightarrow> c \<notin> set (decimal n)"
  using decimal_digits by blast

lemma param_name_clean:
  "c \<notin> set ''RCEW_0123456789'' \<Longrightarrow> c \<notin> set (param_name k i)"
  using decimal_clean[of c i] by (cases k) (simp_all add: param_name_def)

lemma param_name_no_syntax:
  "CHR ''p'' \<notin> set (param_name k i)" "CHR ''('' \<notin> set (param_name k i)"
  "CHR '')'' \<notin> set (param_name k i)" "CHR '','' \<notin> set (param_name k i)"
  "CHR ''/'' \<notin> set (param_name k i)" "CHR ''-'' \<notin> set (param_name k i)"
  by (rule param_name_clean, simp)+

lemma get_param_names_strip:
  "get_param_names s = split (CHR ''-'') (replace_char (CHR ''/'') (CHR ''-'') (strip s))"
  by (simp add: get_param_names_def strip_def)

lemma remove_char_join:
  "remove_char c (join sep xs) = join (remove_char c sep) (map (remove_char c) xs)"
  by (induction xs rule: induct_list012) (auto simp: remove_char_def)

lemma replace_char_join:
  "replace_char c d (join sep xs) = join (replace_char c d sep) (map (replace_char c d) xs)"
  by (induction xs rule: induct_list012) (auto simp: replace_char_def)

lemma remove_char_id: "c \<notin> set s \<Longrightarrow> remove_char c s = s"
  by (induction s) (auto simp: remove_char_def)

lemma replace_char_id: "c \<notin> set s \<Longrightarrow> replace_char c d s = s"
  by (induction s) (auto simp: replace_char_def)

lemma strip_append: "strip (a @ b) = strip a @ strip b"
  by (simp add: strip_def remove_char_def replace_char_def)

lemma strip_Nil: "strip [] = []"
  by (simp add: strip_def remove_char_def replace_char_def)

lemma strip_join: "strip (join sep xs) = join (strip sep) (map strip xs)"
  by (induction xs rule: induct_list012) (auto simp: strip_append strip_Nil)

lemma strip_param_name: "strip (param_name k i) = param_name k i"
  by (simp add: strip_def remove_char_id replace_char_id param_name_no_syntax)

lemma strip_syntax:
  "strip ''/'' = ''/''" "strip ''-'' = ''-''" "strip '','' = ''-''"
  "strip ''p('' = []" "strip '')'' = []"
  by (simp_all add: strip_def remove_char_def replace_char_def)

lemma leaf_text_not_Nil: "valid t \<Longrightarrow> leaf_text t \<noteq> []"
proof (induction t)
  case (Element k indices)
  then show ?case by simp
next
  case (Series children)
  then obtain c cs where "children = c # cs" by (cases children) auto
  with Series show ?case by auto
next
  case (Parallel branches)
  then obtain c cs where "branches = c # cs" by (cases branches) auto
  with Parallel show ?case by auto
qed

lemma strip_render: "valid t \<Longrightarrow> strip (render t) = join ''-'' (leaf_text t)"
proof (induction t)
  case (Element k indices)
  show ?case
    by (simp add: strip_join strip_syntax strip_param_name comp_def)
next
  case (Series children)
  have each: "\<And>c. c \<in> set children \<Longrightarrow> strip (render c) = join ''-'' (leaf_text c)"
    using Series by (simp add: list_all_iff)
  have ne: "\<And>c. c \<in> set children \<Longrightarrow> leaf_text c \<noteq> []"
    using Series.prems by (auto simp: list_all_iff leaf_text_not_Nil)
  have "strip (render (Series children)) = join ''-'' (map (\<lambda>c. strip (render c)) children)"
    by (simp add: strip_join strip_syntax comp_def)
  also have "\<dots> = join ''-'' (map (join ''-'') (map leaf_text children))"
    using each by (simp add: comp_def cong: map_cong)
  also have "\<dots> = join ''-'' (concat (map leaf_text children))"
    by (rule join_concat[symmetric]) (use ne in auto)
  finally show ?case by simp
next
  case (Parallel branches)
  have each: "\<And>c. c \<in> set branches \<Longrightarrow> strip (render c) = join ''-'' (leaf_text c)"
    using Parallel by (simp add: list_all_iff)
  have ne: "\<And>c. c \<in> set branches \<Longrightarrow> leaf_text c \<noteq> []"
    using Parallel.prems by (auto simp: list_all_iff leaf_text_not_Nil)
  have "strip (render (Parallel branches)) =
          strip ''p('' @ strip (join '','' (map render branches)) @ strip '')''"
    by (simp only: render.simps strip_append)
  also have "\<dots> = join ''-'' (map (\<lambda>c. strip (render c)) branches)"
    by (simp add: strip_join strip_syntax comp_def)
  also have "\<dots> = join ''-'' (map (join ''-'') (map leaf_text branches))"
    using each by (simp add: comp_def cong: map_cong)
  also have "\<dots> = join ''-'' (concat (map leaf_text branches))"
    by (rule join_concat[symmetric]) (use ne in auto)
  finally show ?case by simp
qed

lemma parameter_order_not_Nil: "valid t \<Longrightarrow> parameter_order t \<noteq> []"
proof (induction t)
  case (Element k indices)
  then show ?case by (cases k) auto
next
  case (Series children)
  then obtain c cs where "children = c # cs" by (cases children) auto
  with Series show ?case by auto
next
  case (Parallel branches)
  then obtain c cs where "branches = c # cs" by (cases branches) auto
  with Parallel show ?case by auto
qed

lemma slash_param_name:
  "replace_char (CHR ''/'') (CHR ''-'') (param_name k i) = param_name k i"
  by (simp add: replace_char_id param_name_no_syntax)

lemma slash_leaf_text:
  "valid t \<Longrightarrow>
   join ''-'' (map (replace_char (CHR ''/'') (CHR ''-'')) (leaf_text t)) =
   join ''-'' (parameter_order t)"
proof (induction t)
  case (Element k indices)
  show ?case
    by (simp add: replace_char_join slash_param_name comp_def) (simp add: replace_char_def)
next
  case (Series children)
  let ?S = "replace_char (CHR ''/'') (CHR ''-'')"
  have each: "\<And>c. c \<in> set children \<Longrightarrow>
      join ''-'' (map ?S (leaf_text c)) = join ''-'' (parameter_order c)"
    using Series by (simp add: list_all_iff)
  have ne1: "\<And>c. c \<in> set children \<Longrightarrow> map ?S (leaf_text c) \<noteq> []"
    using Series.prems by (auto simp: list_all_iff leaf_text_not_Nil)
  have ne2: "\<And>c. c \<in> set children \<Longrightarrow> parameter_order c \<noteq> []"
    using Series.prems by (auto simp: list_all_iff parameter_order_not_Nil)
  have "join ''-'' (map ?S (leaf_text (Series children))) =
        join ''-'' (concat (map (\<lambda>c. map ?S (leaf_text c)) children))"
    by (simp add: map_concat comp_def)
  also have "\<dots> = join ''-'' (map (join ''-'') (map (\<lambda>c. map ?S (leaf_text c)) children))"
    by (rule join_concat) (use ne1 in auto)
  also have "\<dots> = join ''-'' (map (join ''-'') (map parameter_order children))"
    using each by (simp add: comp_def cong: map_cong)
  also have "\<dots> = join ''-'' (concat (map parameter_order children))"
    by (rule join_concat[symmetric]) (use ne2 in auto)
  finally show ?case by simp
next
  case (Parallel branches)
  let ?S = "replace_char (CHR ''/'') (CHR ''-'')"
  have each: "\<And>c. c \<in> set branches \<Longrightarrow>
      join ''-'' (map ?S (leaf_text c)) = join ''-'' (parameter_order c)"
    using Parallel by (simp add: list_all_iff)
  have ne1: "\<And>c. c \<in> set branches \<Longrightarrow> map ?S (leaf_text c) \<noteq> []"
    using Parallel.prems by (auto simp: list_all_iff leaf_text_not_Nil)
  have ne2: "\<And>c. c \<in> set branches \<Longrightarrow> parameter_order c \<noteq> []"
    using Parallel.prems by (auto simp: list_all_iff parameter_order_not_Nil)
  have "join ''-'' (map ?S (leaf_text (Parallel branches))) =
        join ''-'' (concat (map (\<lambda>c. map ?S (leaf_text c)) branches))"
    by (simp add: map_concat comp_def)
  also have "\<dots> = join ''-'' (map (join ''-'') (map (\<lambda>c. map ?S (leaf_text c)) branches))"
    by (rule join_concat) (use ne1 in auto)
  also have "\<dots> = join ''-'' (map (join ''-'') (map parameter_order branches))"
    using each by (simp add: comp_def cong: map_cong)
  also have "\<dots> = join ''-'' (concat (map parameter_order branches))"
    by (rule join_concat[symmetric]) (use ne2 in auto)
  finally show ?case by simp
qed

lemma parameter_order_no_dash:
  "x \<in> set (parameter_order t) \<Longrightarrow> CHR ''-'' \<notin> set x"
  by (induction t) (auto simp: param_name_no_syntax)

lemma join_avoids:
  "c \<notin> set sep \<Longrightarrow> (\<And>x. x \<in> set xs \<Longrightarrow> c \<notin> set x) \<Longrightarrow> c \<notin> set (join sep xs)"
  by (induction xs rule: induct_list012) auto

lemma leaf_text_no_dash: "x \<in> set (leaf_text t) \<Longrightarrow> CHR ''-'' \<notin> set x"
proof (induction t)
  case (Element k indices)
  have "CHR ''-'' \<notin> set (join ''/'' (map (param_name k) indices))"
    by (rule join_avoids) (auto simp: param_name_no_syntax)
  with Element show ?case by simp
next
  case (Series children)
  then show ?case by auto
next
  case (Parallel branches)
  then show ?case by auto
qed

lemma get_param_names_render: "valid t \<Longrightarrow> get_param_names (render t) = parameter_order t"
proof -
  assume v: "valid t"
  have "get_param_names (render t) =
        split (CHR ''-'') (replace_char (CHR ''/'') (CHR ''-'') (join ''-'' (leaf_text t)))"
    using v by (simp add: get_param_names_strip strip_render)
  also have "replace_char (CHR ''/'') (CHR ''-'') (join ''-'' (leaf_text t)) =
             join ''-'' (map (replace_char (CHR ''/'') (CHR ''-'')) (leaf_text t))"
    by (simp add: replace_char_join) (simp add: replace_char_def)
  also have "\<dots> = join ''-'' (parameter_order t)"
    using v by (rule slash_leaf_text)
  also have "split (CHR ''-'') (join ''-'' (parameter_order t)) = parameter_order t"
    by (rule split_join) (use v in \<open>auto simp: parameter_order_not_Nil parameter_order_no_dash\<close>)
  finally show ?thesis .
qed

lemma leaf_elements_render: "valid t \<Longrightarrow> leaf_elements (render t) = leaf_text t"
proof -
  assume v: "valid t"
  have "leaf_elements (render t) = split (CHR ''-'') (join ''-'' (leaf_text t))"
    using v by (simp add: leaf_elements_def strip_render)
  also have "\<dots> = leaf_text t"
    by (rule split_join) (use v in \<open>auto simp: leaf_text_not_Nil leaf_text_no_dash\<close>)
  finally show ?thesis .
qed

lemma total_arity_append:
  "total_arity (xs @ ys) =
     (case total_arity xs of
        Inl e \<Rightarrow> Inl e
      | Inr a \<Rightarrow> map_sum id ((+) a) (total_arity ys))"
proof (induction xs)
  case Nil
  show ?case by (cases "total_arity ys") simp_all
next
  case (Cons x xs)
  show ?case
    by (cases "kind_of x"; cases "total_arity xs"; cases "total_arity ys")
       (simp_all add: Cons)
qed

lemma total_arity_concat:
  "(\<And>x. x \<in> set xs \<Longrightarrow> total_arity (f x) = Inr (g x)) \<Longrightarrow>
   total_arity (concat (map f xs)) = Inr (sum_list (map g xs))"
  by (induction xs) (simp_all add: total_arity_append)

lemma kind_of_param_name: "kind_of (param_name k i @ rest) = Some k"
  by (cases k) (simp_all add: kind_of_def param_name_def)

lemma kind_of_leaf:
  "indices \<noteq> [] \<Longrightarrow> kind_of (join ''/'' (map (param_name k) indices)) = Some k"
proof (induction indices rule: induct_list012)
  case 1
  then show ?case by simp
next
  case (2 x)
  then show ?case using kind_of_param_name[of k x "[]"] by simp
next
  case (3 x y zs)
  then show ?case using kind_of_param_name[of k x] by simp
qed

lemma total_arity_leaf_text: "valid t \<Longrightarrow> total_arity (leaf_text t) = Inr (arity_sum t)"
proof (induction t)
  case (Element k indices)
  then have "indices \<noteq> []" by (cases k) auto
  then show ?case by (simp add: kind_of_leaf)
next
  case (Series children)
  then show ?case by (simp add: list_all_iff total_arity_concat)
next
  case (Parallel branches)
  then show ?case by (simp add: list_all_iff total_arity_concat)
qed

lemma length_parameter_order: "valid t \<Longrightarrow> length (parameter_order t) = arity_sum t"
proof (induction t)
  case (Element k indices)
  then show ?case by simp
next
  case (Series children)
  then have "sum_list (map (\<lambda>c. length (parameter_order c)) children) =
             sum_list (map arity_sum children)"
    by (intro arg_cong[where f = sum_list] map_cong) (auto simp: list_all_iff)
  then show ?case by (simp add: length_concat comp_def)
next
  case (Parallel branches)
  then have "sum_list (map (\<lambda>c. length (parameter_order c)) branches) =
             sum_list (map arity_sum branches)"
    by (intro arg_cong[where f = sum_list] map_cong) (auto simp: list_all_iff)
  then show ?case by (simp add: length_concat comp_def)
qed

section \<open>Parameter names\<close>

text \<open>
  Claim C7. For every valid circuit expression, that is the text of a valid structure,
  \<^verbatim>\<open>get_param_names\<close> returns the sub-parameter names in the left-to-right order of
  the expression, one per scalar sub-parameter, and the length of that list is what
  \<^verbatim>\<open>calculateCircuitLength\<close> returns for the same expression. For the Randles circuit
  \<^verbatim>\<open>R_0-p(R_1,C_1)-W_1/W_2\<close> the names are \<^verbatim>\<open>R_0\<close>, \<^verbatim>\<open>R_1\<close>, \<^verbatim>\<open>C_1\<close>, \<^verbatim>\<open>W_1\<close>,
  \<^verbatim>\<open>W_2\<close>.
\<close>

theorem get_param_names_order:
  "(valid t \<longrightarrow>
      get_param_names (render t) = parameter_order t \<and>
      calculateCircuitLength (render t) = Inr (length (get_param_names (render t)))) \<and>
   get_param_names ''R_0-p(R_1,C_1)-W_1/W_2'' = [''R_0'', ''R_1'', ''C_1'', ''W_1'', ''W_2'']"
proof -
  have "get_param_names ''R_0-p(R_1,C_1)-W_1/W_2'' = [''R_0'', ''R_1'', ''C_1'', ''W_1'', ''W_2'']"
    by code_simp
  then show ?thesis
    by (simp add: get_param_names_render calculateCircuitLength_def leaf_elements_render
        total_arity_leaf_text length_parameter_order)
qed

theorem get_param_names_order_witness:
  "valid (Series [Element Resistor [0],
                  Parallel [Element Resistor [1], Element ConstantPhase [1, 2]],
                  Element Warburg [1, 2]]) \<and>
   render (Series [Element Resistor [0],
                   Parallel [Element Resistor [1], Element ConstantPhase [1, 2]],
                   Element Warburg [1, 2]]) = ''R_0-p(R_1,E_1/E_2)-W_1/W_2'' \<and>
   get_param_names ''R_0-p(R_1,E_1/E_2)-W_1/W_2'' =
     [''R_0'', ''R_1'', ''E_1'', ''E_2'', ''W_1'', ''W_2''] \<and>
   calculateCircuitLength ''R_0-p(R_1,E_1/E_2)-W_1/W_2'' = Inr 6"
proof -
  let ?t = "Series [Element Resistor [0],
                    Parallel [Element Resistor [1], Element ConstantPhase [1, 2]],
                    Element Warburg [1, 2]]"
  have v: "valid ?t" by simp
  have r: "render ?t = ''R_0-p(R_1,E_1/E_2)-W_1/W_2''" by code_simp
  have p: "parameter_order ?t = [''R_0'', ''R_1'', ''E_1'', ''E_2'', ''W_1'', ''W_2'']"
    by code_simp
  from get_param_names_order[of ?t] v
  have "get_param_names (render ?t) = parameter_order ?t"
    and "calculateCircuitLength (render ?t) = Inr (length (get_param_names (render ?t)))"
    by blast+
  then show ?thesis using v r p by simp
qed

section \<open>Input validation of fit\<close>

lemma items_homogeneous:
  "items a \<noteq> [] \<Longrightarrow> is_number (hd (items a)) = list_all is_number (items a)"
  "items a \<noteq> [] \<Longrightarrow> is_complex (hd (items a)) = list_all is_complex (items a)"
  by (cases a; simp add: list_all_iff; cases "items a"; auto)+

lemma check_frequencies_eq:
  "check_frequencies x =
     (case x of
        Ndarray f \<Rightarrow>
          if items f = [] then Inl (IndexError ''index 0 is out of bounds for axis 0 with size 0'')
          else if list_all is_number (items f) then Inr f
          else Inl (AssertionError ''frequencies does not contain a number'')
      | _ \<Rightarrow> Inl (AssertionError ''frequencies is not of type np.ndarray''))"
proof (cases x)
  case (Ndarray f)
  show ?thesis
  proof (cases "items f")
    case Nil
    then show ?thesis using Ndarray by (simp add: check_frequencies_def getitem0_def)
  next
    case (Cons y ys)
    then show ?thesis using Ndarray items_homogeneous(1)[of f]
      by (simp add: check_frequencies_def getitem0_def)
  qed
qed (simp_all add: check_frequencies_def)

lemma check_impedance_eq:
  "check_impedance x =
     (case x of
        Ndarray z \<Rightarrow>
          if items z = [] then Inl (IndexError ''index 0 is out of bounds for axis 0 with size 0'')
          else if list_all is_complex (items z) then Inr z
          else Inl (AssertionError ''impedance does not contain complex numbers'')
      | _ \<Rightarrow> Inl (AssertionError ''impedance is not of type np.ndarray''))"
proof (cases x)
  case (Ndarray z)
  show ?thesis
  proof (cases "items z")
    case Nil
    then show ?thesis using Ndarray by (simp add: check_impedance_def getitem0_def)
  next
    case (Cons y ys)
    then show ?thesis using Ndarray items_homogeneous(2)[of z]
      by (simp add: check_impedance_def getitem0_def)
  qed
qed (simp_all add: check_impedance_def)



text \<open>
  Conversely, on a valid input and a model with a circuit the engine is called, once.
\<close>

lemma fit_calls_engine:
  "valid_fit_input (objects s self) frequencies impedance \<Longrightarrow>
   circuit (objects s self) = Some c \<Longrightarrow>
   \<exists>request. solver_calls (snd (fit circuit_fit self frequencies impedance s)) =
              solver_calls s @ [request]"
  by (cases frequencies; cases impedance)
     (auto simp: valid_fit_input_def fit_def check_frequencies_eq check_impedance_eq len_def
           Let_def split: sum.split prod.split option.split)

section \<open>What fit changes\<close>

lemma fit_failure:
  "fit circuit_fit self frequencies impedance s = (Inl e, s') \<Longrightarrow> objects s' = objects s"
  unfolding fit_def Let_def
  by (auto split: sum.split_asm option.split_asm if_split_asm prod.split_asm)

lemma fit_success:
  "fit circuit_fit self frequencies impedance s = (Inr x, s') \<Longrightarrow>
   \<exists>request parameters conf.
     x = self \<and>
     solver_calls s' = solver_calls s @ [request] \<and>
     circuit_fit request = Inr (parameters, conf) \<and>
     objects s' = (objects s)(self :=
       (case conf of
          None \<Rightarrow> (objects s self)\<lparr>parameters' := Some parameters\<rparr>
        | Some cf \<Rightarrow> (objects s self)\<lparr>parameters' := Some parameters, conf' := Some cf\<rparr>))"
  unfolding fit_def Let_def
  by (auto split: sum.split_asm option.split_asm if_split_asm prod.split_asm)

text \<open>
  Claim C8. A successful call of \<^verbatim>\<open>fit\<close> returns the reference it was called on, the
  model object itself, and no other object of the store has changed.
\<close>

theorem fit_returns_self:
  "fit circuit_fit self frequencies impedance s = (Inr r, s') \<Longrightarrow>
   r = self \<and> (\<forall>other. other \<noteq> self \<longrightarrow> objects s' other = objects s other)"
proof -
  assume "fit circuit_fit self frequencies impedance s = (Inr r, s')"
  then obtain request parameters conf where
    same: "r = self" and
    updated: "objects s' = (objects s)(self :=
       (case conf of
          None \<Rightarrow> (objects s self)\<lparr>parameters' := Some parameters\<rparr>
        | Some cf \<Rightarrow> (objects s self)\<lparr>parameters' := Some parameters, conf' := Some cf\<rparr>))"
    using fit_success[of circuit_fit self frequencies impedance s r s'] by blast
  from updated have "\<forall>other. other \<noteq> self \<longrightarrow> objects s' other = objects s other"
    by simp
  with same show ?thesis by simp
qed

theorem fit_returns_self_witness:
  "fit circuit_fit_converged 7 (Ndarray (Float64 [1, 10])) (Ndarray (Complex128 [3, 3]))
     (store unfitted_model) =
     (Inr 7, snd (fit circuit_fit_converged 7 (Ndarray (Float64 [1, 10]))
                    (Ndarray (Complex128 [3, 3])) (store unfitted_model))) \<and>
   objects (snd (fit circuit_fit_converged 7 (Ndarray (Float64 [1, 10]))
                   (Ndarray (Complex128 [3, 3])) (store unfitted_model))) 8 = unfitted_model"
proof -
  let ?r = "fit circuit_fit_converged 7 (Ndarray (Float64 [1, 10]))
              (Ndarray (Complex128 [3, 3])) (store unfitted_model)"
  have ok: "fst ?r = Inr 7"
    by (simp add: fit_def check_frequencies_def check_impedance_def getitem0_def len_def
        store_def unfitted_model_def circuit_fit_converged_def)
  then have eq: "?r = (Inr 7, snd ?r)" by (metis prod.collapse)
  have "objects (snd ?r) 8 = objects (store unfitted_model) 8"
    using fit_returns_self[OF eq] by simp
  then show ?thesis using eq by (simp add: store_def)
qed

text \<open>
  Claim C3, as the code has it. A call of \<^verbatim>\<open>fit\<close> that fails leaves every object as it
  was. A call that succeeds has called the engine once and stores the parameter vector
  the engine returned; it stores the confidence vector when the engine returned one, and
  keeps the previous \<^verbatim>\<open>conf_\<close> when the engine returned \<^verbatim>\<open>None\<close> for it.
\<close>

theorem fit_result_update:
  "fit circuit_fit self frequencies impedance s = (r, s') \<Longrightarrow>
   (\<forall>e. r = Inl e \<longrightarrow> objects s' = objects s) \<and>
   (\<forall>x. r = Inr x \<longrightarrow>
      (\<exists>request parameters conf.
         solver_calls s' = solver_calls s @ [request] \<and>
         circuit_fit request = Inr (parameters, conf) \<and>
         parameters' (objects s' self) = Some parameters \<and>
         conf' (objects s' self) =
           (case conf of None \<Rightarrow> conf' (objects s self) | Some cf \<Rightarrow> Some cf)))"
proof (intro conjI allI impI)
  fix e assume "r = Inl e"
  moreover assume "fit circuit_fit self frequencies impedance s = (r, s')"
  ultimately show "objects s' = objects s" using fit_failure by blast
next
  fix x assume "r = Inr x"
  moreover assume "fit circuit_fit self frequencies impedance s = (r, s')"
  ultimately obtain request parameters conf where
    c: "solver_calls s' = solver_calls s @ [request]"
       "circuit_fit request = Inr (parameters, conf)"
       "objects s' = (objects s)(self :=
         (case conf of
            None \<Rightarrow> (objects s self)\<lparr>parameters' := Some parameters\<rparr>
          | Some cf \<Rightarrow> (objects s self)\<lparr>parameters' := Some parameters, conf' := Some cf\<rparr>))"
    using fit_success[of circuit_fit self frequencies impedance s x s'] by blast
  have "parameters' (objects s' self) = Some parameters"
    and "conf' (objects s' self) =
           (case conf of None \<Rightarrow> conf' (objects s self) | Some cf \<Rightarrow> Some cf)"
    by (simp_all add: c(3) split: option.split)
  with c(1,2) show "\<exists>request parameters conf.
         solver_calls s' = solver_calls s @ [request] \<and>
         circuit_fit request = Inr (parameters, conf) \<and>
         parameters' (objects s' self) = Some parameters \<and>
         conf' (objects s' self) =
           (case conf of None \<Rightarrow> conf' (objects s self) | Some cf \<Rightarrow> Some cf)"
    by blast
qed

theorem fit_result_update_witness:
  "fit circuit_fit_converged 0 (Ndarray (Float64 [1, 10])) (Ndarray (Complex128 [3, 3]))
     (store fitted_model) =
     (Inr 0, snd (fit circuit_fit_converged 0 (Ndarray (Float64 [1, 10]))
                    (Ndarray (Complex128 [3, 3])) (store fitted_model))) \<and>
   (\<exists>request parameters conf.
      solver_calls (snd (fit circuit_fit_converged 0 (Ndarray (Float64 [1, 10]))
                    (Ndarray (Complex128 [3, 3])) (store fitted_model))) = [request] \<and>
      circuit_fit_converged request = Inr (parameters, conf) \<and>
      parameters' (objects (snd (fit circuit_fit_converged 0 (Ndarray (Float64 [1, 10]))
                    (Ndarray (Complex128 [3, 3])) (store fitted_model))) 0) = Some parameters \<and>
      conf' (objects (snd (fit circuit_fit_converged 0 (Ndarray (Float64 [1, 10]))
                    (Ndarray (Complex128 [3, 3])) (store fitted_model))) 0) = conf \<and>
      parameters = [1, 2] \<and> conf = Some [0, 0]) \<and>
   fit circuit_fit_failed 0 (Ndarray (Float64 [1, 10])) (Ndarray (Complex128 [3, 3]))
     (store fitted_model) =
     (Inl (FittingError ''solver did not converge''),
      snd (fit circuit_fit_failed 0 (Ndarray (Float64 [1, 10]))
                    (Ndarray (Complex128 [3, 3])) (store fitted_model))) \<and>
   objects (snd (fit circuit_fit_failed 0 (Ndarray (Float64 [1, 10]))
                    (Ndarray (Complex128 [3, 3])) (store fitted_model))) =
     objects (store fitted_model)"
proof -
  let ?ok = "fit circuit_fit_converged 0 (Ndarray (Float64 [1, 10]))
               (Ndarray (Complex128 [3, 3])) (store fitted_model)"
  let ?ko = "fit circuit_fit_failed 0 (Ndarray (Float64 [1, 10]))
               (Ndarray (Complex128 [3, 3])) (store fitted_model)"
  have "fst ?ok = Inr 0"
    by (simp add: fit_def check_frequencies_def check_impedance_def getitem0_def len_def
        store_def fitted_model_def circuit_fit_converged_def)
  then have ok: "?ok = (Inr 0, snd ?ok)" by (metis prod.collapse)
  have "fst ?ko = Inl (FittingError ''solver did not converge'')"
    by (simp add: fit_def check_frequencies_def check_impedance_def getitem0_def len_def
        store_def fitted_model_def circuit_fit_failed_def)
  then have ko: "?ko = (Inl (FittingError ''solver did not converge''), snd ?ko)"
    by (metis prod.collapse)
  from fit_result_update[OF ok] obtain request parameters conf where
    c: "solver_calls (snd ?ok) = solver_calls (store fitted_model) @ [request]"
       "circuit_fit_converged request = Inr (parameters, conf)"
       "parameters' (objects (snd ?ok) 0) = Some parameters"
       "conf' (objects (snd ?ok) 0) =
          (case conf of None \<Rightarrow> conf' (objects (store fitted_model) 0) | Some cf \<Rightarrow> Some cf)"
    by blast
  have v: "parameters' (objects (snd ?ok) 0) = Some [1, 2]"
          "conf' (objects (snd ?ok) 0) = Some [0, 0]"
    by (simp_all add: fit_def check_frequencies_def check_impedance_def getitem0_def len_def
        store_def fitted_model_def circuit_fit_converged_def)
  have p: "parameters = [1, 2]" using c(3) v(1) by simp
  have "conf \<noteq> None"
    using c(2) by (auto simp: circuit_fit_converged_def split: option.split_asm)
  then have q: "conf = Some [0, 0]" using c(4) v(2) by (cases conf) auto
  have calls: "solver_calls (snd ?ok) = [request]" using c(1) by (simp add: store_def)
  have unchanged: "objects (snd ?ko) = objects (store fitted_model)"
    using fit_result_update[OF ko] by blast
  show ?thesis
    using ok ko calls c(2) c(3) p q v unchanged by (intro conjI exI[of _ request] exI[of _ parameters] exI[of _ conf]) simp_all
qed

text \<open>
  A successful fit need not overwrite both vectors: fitting the fitted example again with
  an engine that reports no covariance replaces the parameters 3 and 4 by 1 and 2, while
  \<^verbatim>\<open>conf_\<close> still holds the standard errors of the earlier fit.
\<close>

theorem refit_without_covariance_counterexample:
  "fst (fit circuit_fit_no_covariance 0 (Ndarray (Float64 [1, 10]))
          (Ndarray (Complex128 [3, 3])) (store fitted_model)) = Inr 0 \<and>
   parameters' fitted_model = Some [3, 4] \<and>
   conf' fitted_model = Some [1/2, 1/4] \<and>
   parameters' (objects (snd (fit circuit_fit_no_covariance 0 (Ndarray (Float64 [1, 10]))
          (Ndarray (Complex128 [3, 3])) (store fitted_model))) 0) = Some [1, 2] \<and>
   conf' (objects (snd (fit circuit_fit_no_covariance 0 (Ndarray (Float64 [1, 10]))
          (Ndarray (Complex128 [3, 3])) (store fitted_model))) 0) = Some [1/2, 1/4]"
  by (simp add: fit_def check_frequencies_def check_impedance_def getitem0_def len_def
      store_def fitted_model_def circuit_fit_no_covariance_def)

section \<open>Construction\<close>

lemma check_length_Inr:
  "check_length ccl msg m = Inr m' \<Longrightarrow>
   m' = m \<and> (\<exists>c g. circuit m = Some c \<and> initial_guess m = Some g \<and> ccl c = Inr (length g))"
  by (auto simp: check_length_def split: option.split_asm sum.split_asm if_split_asm)

lemma BaseCircuit_Inr:
  "BaseCircuit ig nm alg b = Inr m \<Longrightarrow>
   m = \<lparr>circuit = None, name = nm, initial_guess = ig, algorithm = alg, bounds = b,
        parameters' = None, conf' = None\<rparr>"
  by (auto simp: BaseCircuit_def split: if_split_asm)

lemma check_length_mismatch:
  "circuit m = Some c \<Longrightarrow> initial_guess m = Some g \<Longrightarrow> ccl c = Inr n \<Longrightarrow> length g \<noteq> n \<Longrightarrow>
   check_length ccl msg m = Inl (AssertionError msg)"
  by (simp add: check_length_def)

lemma CustomCircuit_mismatch:
  "ccl circuit0 = Inr n \<Longrightarrow> length g \<noteq> n \<Longrightarrow>
   \<exists>msg. CustomCircuit ccl circuit0 (Some g) name0 algorithm0 bounds0 = Inl (AssertionError msg)"
  by (cases "list_all is_number g")
     (simp_all add: CustomCircuit_def BaseCircuit_def check_length_mismatch)

lemma CustomCircuit_Inr:
  "CustomCircuit ccl circuit0 initial_guess0 name0 algorithm0 bounds0 = Inr m \<Longrightarrow>
   circuit m = Some circuit0 \<and> initial_guess m = initial_guess0 \<and>
   (\<exists>g. initial_guess m = Some g \<and> ccl circuit0 = Inr (length g))"
proof -
  assume a: "CustomCircuit ccl circuit0 initial_guess0 name0 algorithm0 bounds0 = Inr m"
  then obtain self where
    b: "BaseCircuit initial_guess0 name0 algorithm0 bounds0 = Inr self"
    and c: "check_length ccl ''Initial guess length needs to be equal to {circuit_length}''
              (self\<lparr>circuit := Some circuit0\<rparr>) = Inr m"
    by (auto simp: CustomCircuit_def split: sum.split_asm)
  from check_length_Inr[OF c] BaseCircuit_Inr[OF b] show ?thesis by auto
qed

lemma Randles_mismatch:
  "ccl (if CPE then ''R_0-p(R_1,E_1/E_2)-W_1/W_2'' else ''R_0-p(R_1,C_1)-W_1/W_2'') = Inr n \<Longrightarrow>
   length g \<noteq> n \<Longrightarrow>
   \<exists>msg. Randles ccl CPE (Some g) name0 algorithm0 bounds0 = Inl (AssertionError msg)"
  by (cases "list_all is_number g"; cases CPE)
     (simp_all add: Randles_def BaseCircuit_def check_length_mismatch)

lemma Randles_Inr:
  "Randles ccl CPE initial_guess0 name0 algorithm0 bounds0 = Inr m \<Longrightarrow>
   circuit m = Some (if CPE then ''R_0-p(R_1,E_1/E_2)-W_1/W_2'' else ''R_0-p(R_1,C_1)-W_1/W_2'') \<and>
   initial_guess m = initial_guess0 \<and>
   (\<exists>g. initial_guess m = Some g \<and>
        ccl (if CPE then ''R_0-p(R_1,E_1/E_2)-W_1/W_2'' else ''R_0-p(R_1,C_1)-W_1/W_2'') =
          Inr (length g))"
proof -
  assume a: "Randles ccl CPE initial_guess0 name0 algorithm0 bounds0 = Inr m"
  then obtain self where
    b: "BaseCircuit initial_guess0 name0 algorithm0 bounds0 = Inr self"
    by (auto simp: Randles_def split: sum.split_asm)
  show ?thesis
  proof (cases CPE)
    case True
    with a b have "check_length ccl ''Initial guess length needs to be equal to parameter length''
        (self\<lparr>name := Some ''Randles w/ CPE'',
              circuit := Some ''R_0-p(R_1,E_1/E_2)-W_1/W_2''\<rparr>) = Inr m"
      by (simp add: Randles_def)
    from check_length_Inr[OF this] BaseCircuit_Inr[OF b] True show ?thesis by auto
  next
    case False
    with a b have "check_length ccl ''Initial guess length needs to be equal to parameter length''
        (self\<lparr>name := Some ''Randles'',
              circuit := Some ''R_0-p(R_1,C_1)-W_1/W_2''\<rparr>) = Inr m"
      by (simp add: Randles_def)
    from check_length_Inr[OF this] BaseCircuit_Inr[OF b] False show ?thesis by auto
  qed
qed

lemma length_examples:
  "calculateCircuitLength ''R_0-p(R_1,C_1)-W_1/W_2'' = Inr 5"
  "calculateCircuitLength ''R_0-p(R_1,E_1/E_2)-W_1/W_2'' = Inr 6"
  "calculateCircuitLength ''R_0-R_1'' = Inr 2"
  by code_simp+

text \<open>
  Claim C6. \<^verbatim>\<open>CustomCircuit\<close> and \<^verbatim>\<open>Randles\<close> raise an \<^verbatim>\<open>AssertionError\<close> when the
  length of the initial guess differs from \<^verbatim>\<open>calculateCircuitLength\<close> of the circuit
  string, and a construction that succeeds has an initial guess of exactly that length.
  Neither constructor can reach the fitting engine or the evaluator.
\<close>

theorem constructors_check_length:
  "(ccl circ = Inr n \<and> length g \<noteq> n \<longrightarrow>
      (\<exists>msg. CustomCircuit ccl circ (Some g) nm alg bnds =
               Inl (AssertionError msg))) \<and>
   (CustomCircuit ccl circ guess nm alg bnds = Inr m \<longrightarrow>
      circuit m = Some circ \<and> initial_guess m = guess \<and>
      (\<exists>g. initial_guess m = Some g \<and> ccl circ = Inr (length g))) \<and>
   (ccl (if CPE then ''R_0-p(R_1,E_1/E_2)-W_1/W_2'' else ''R_0-p(R_1,C_1)-W_1/W_2'') = Inr n' \<and>
    length g' \<noteq> n' \<longrightarrow>
      (\<exists>msg. Randles ccl CPE (Some g') nm alg bnds = Inl (AssertionError msg))) \<and>
   (Randles ccl CPE guess nm alg bnds = Inr m' \<longrightarrow>
      circuit m' =
        Some (if CPE then ''R_0-p(R_1,E_1/E_2)-W_1/W_2'' else ''R_0-p(R_1,C_1)-W_1/W_2'') \<and>
      initial_guess m' = guess \<and>
      (\<exists>g. initial_guess m' = Some g \<and>
           ccl (if CPE then ''R_0-p(R_1,E_1/E_2)-W_1/W_2'' else ''R_0-p(R_1,C_1)-W_1/W_2'') =
             Inr (length g)))"
  using CustomCircuit_mismatch[of ccl circ n g nm alg bnds]
        CustomCircuit_Inr[of ccl circ guess nm alg bnds m]
        Randles_mismatch[of ccl CPE n' g' nm alg bnds]
        Randles_Inr[of ccl CPE guess nm alg bnds m']
  by blast

theorem constructors_check_length_witness:
  "calculateCircuitLength ''R_0-R_1'' = Inr 2 \<and> length [PyFloat 1] \<noteq> 2 \<and>
   (\<exists>msg. CustomCircuit calculateCircuitLength ''R_0-R_1'' (Some [PyFloat 1])
            (Some ''two resistors'') ''leastsq'' None = Inl (AssertionError msg)) \<and>
   CustomCircuit calculateCircuitLength ''R_0-R_1'' (Some [PyFloat 1, PyFloat 2])
     (Some ''two resistors'') ''leastsq'' None = Inr unfitted_model \<and>
   (\<exists>g. initial_guess unfitted_model = Some g \<and>
        calculateCircuitLength ''R_0-R_1'' = Inr (length g)) \<and>
   calculateCircuitLength ''R_0-p(R_1,C_1)-W_1/W_2'' = Inr 5 \<and>
   (\<exists>msg. Randles calculateCircuitLength False (Some [PyFloat 1, PyFloat 2])
            (Some ''two resistors'') ''leastsq'' None = Inl (AssertionError msg))"
proof -
  have l: "calculateCircuitLength ''R_0-R_1'' = Inr 2 \<and> length [PyFloat 1] \<noteq> 2"
    using length_examples(3) by simp
  have lr: "calculateCircuitLength
              (if False then ''R_0-p(R_1,E_1/E_2)-W_1/W_2'' else ''R_0-p(R_1,C_1)-W_1/W_2'') =
              Inr 5 \<and> length [PyFloat 1, PyFloat 2] \<noteq> 5"
    using length_examples(1) by simp
  have ok: "CustomCircuit calculateCircuitLength ''R_0-R_1'' (Some [PyFloat 1, PyFloat 2])
              (Some ''two resistors'') ''leastsq'' None = Inr unfitted_model"
    by (simp add: CustomCircuit_def BaseCircuit_def check_length_def length_examples
        unfitted_model_def)
  note t = constructors_check_length[where ccl = calculateCircuitLength
      and circ = "''R_0-R_1''" and n = 2 and g = "[PyFloat 1]"
      and nm = "Some ''two resistors''" and alg = "''leastsq''" and bnds = None
      and guess = "Some [PyFloat 1, PyFloat 2]" and m = unfitted_model
      and CPE = False and n' = 5 and g' = "[PyFloat 1, PyFloat 2]"]
  from t l have 1: "\<exists>msg. CustomCircuit calculateCircuitLength ''R_0-R_1'' (Some [PyFloat 1])
            (Some ''two resistors'') ''leastsq'' None = Inl (AssertionError msg)"
    by blast
  from t ok have 2: "\<exists>g. initial_guess unfitted_model = Some g \<and>
        calculateCircuitLength ''R_0-R_1'' = Inr (length g)"
    by blast
  from t lr have 3: "\<exists>msg. Randles calculateCircuitLength False (Some [PyFloat 1, PyFloat 2])
            (Some ''two resistors'') ''leastsq'' None = Inl (AssertionError msg)"
    by blast
  show ?thesis using l ok 1 2 3 length_examples(1) by blast
qed

section \<open>Prediction\<close>




lemma import_print_raises:
  "percent ''the following circuit parameters'' (Some filepath) =
     Inl (TypeError ''not all arguments converted during string formatting'')"
  by simp

lemma model_import_never_returns:
  "model_import ccl filepath as_initial_guess fs \<noteq> Inr m"
  by (simp add: model_import_def import_print_raises split: sum.split)

lemma fit_keeps_configuration:
  "fit circuit_fit self frequencies impedance s = (r, s') \<Longrightarrow>
   circuit (objects s' self) = circuit (objects s self) \<and>
   initial_guess (objects s' self) = initial_guess (objects s self)"
proof (cases r)
  case (Inl e)
  assume "fit circuit_fit self frequencies impedance s = (r, s')"
  with Inl show ?thesis using fit_failure by metis
next
  case (Inr x)
  assume "fit circuit_fit self frequencies impedance s = (r, s')"
  with Inr obtain request parameters conf where
    "objects s' = (objects s)(self :=
       (case conf of
          None \<Rightarrow> (objects s self)\<lparr>parameters' := Some parameters\<rparr>
        | Some cf \<Rightarrow> (objects s self)\<lparr>parameters' := Some parameters, conf' := Some cf\<rparr>))"
    using fit_success[of circuit_fit self frequencies impedance s x s'] by blast
  then show ?thesis by (simp split: option.split)
qed

lemma reachable_has_guess:
  "reachable ccl circuit_fit m \<Longrightarrow> initial_guess m = None \<Longrightarrow> circuit m = None"
proof (induction rule: reachable.induct)
  case (base initial_guess0 name0 algorithm0 bounds0 m)
  then show ?case by (auto dest: BaseCircuit_Inr)
next
  case (randles CPE initial_guess0 name0 algorithm0 bounds0 m)
  then show ?case
    by (auto simp: Randles_def split: sum.split_asm if_split_asm dest!: check_length_Inr)
next
  case (custom circuit0 initial_guess0 name0 algorithm0 bounds0 m)
  then show ?case
    by (auto simp: CustomCircuit_def split: sum.split_asm dest!: check_length_Inr)
next
  case (imported filepath as_initial_guess fs m)
  then show ?case by (simp add: model_import_never_returns)
next
  case (fitted s self frequencies impedance r s')
  then show ?case using fit_keeps_configuration by metis
qed

text \<open>
  Claim C2. A model that has neither a fit result nor an initial guess raises on
  \<^verbatim>\<open>predict(frequencies)\<close>, whatever the frequencies and the evaluator: such a model
  is a bare \<^verbatim>\<open>BaseCircuit\<close>, which has no circuit to evaluate.
\<close>

theorem predict_unconfigured_raises:
  "reachable ccl circuit_fit m \<Longrightarrow> parameters' m = None \<Longrightarrow> initial_guess m = None \<Longrightarrow>
   \<exists>e. predict computeCircuit m frequencies False = Inl e"
proof -
  assume r: "reachable ccl circuit_fit m" and p: "parameters' m = None"
    and g: "initial_guess m = None"
  from r g have no_circuit: "circuit m = None" by (rule reachable_has_guess)
  from p have not_fit: "\<not> is_fit m" by (simp add: is_fit_def)
  show ?thesis
  proof (cases "check_frequencies frequencies")
    case (Inl e)
    then show ?thesis by (simp add: predict_def)
  next
    case (Inr f)
    then show ?thesis using no_circuit not_fit by (simp add: predict_def)
  qed
qed

theorem predict_unconfigured_raises_witness:
  "reachable calculateCircuitLength circuit_fit_converged bare_model \<and>
   parameters' bare_model = None \<and> initial_guess bare_model = None \<and>
   (\<exists>e. predict computeCircuit_series_R bare_model (Ndarray (Float64 [1, 10])) False = Inl e)"
proof -
  have "BaseCircuit None None ''leastsq'' None = Inr bare_model"
    by (simp add: BaseCircuit_def bare_model_def)
  then have r: "reachable calculateCircuitLength circuit_fit_converged bare_model"
    by (rule reachable.base)
  have p: "parameters' bare_model = None" and g: "initial_guess bare_model = None"
    by (simp_all add: bare_model_def)
  from predict_unconfigured_raises[OF r p g] r p g show ?thesis by blast
qed

section \<open>Export and import\<close>

lemma get_param_names_not_Nil: "get_param_names c \<noteq> []"
  by (simp add: get_param_names_def split_not_Nil)

lemma pairs_None: "names \<noteq> [] \<Longrightarrow> \<exists>e. pairs names None = Inl e"
  by (simp add: pairs_def)

text \<open>
  Claim C9. \<^verbatim>\<open>model_export\<close> on a model whose \<^verbatim>\<open>parameters_\<close> or \<^verbatim>\<open>conf_\<close> is
  \<^verbatim>\<open>None\<close> raises and leaves the file system as it was: no file is created.
\<close>

theorem export_unfitted_raises:
  "parameters' m = None \<or> conf' m = None \<Longrightarrow> \<exists>e. model_export m filepath fs = (Inl e, fs)"
proof (cases "circuit m")
  case None
  then show ?thesis by (simp add: model_export_def)
next
  case (Some c)
  assume u: "parameters' m = None \<or> conf' m = None"
  have ne: "get_param_names c \<noteq> []" by (rule get_param_names_not_Nil)
  show ?thesis
  proof (cases "pairs (get_param_names c) (initial_guess m)")
    case (Inl e)
    with Some show ?thesis by (simp add: model_export_def)
  next
    case ig: (Inr a)
    show ?thesis
    proof (cases "pairs (get_param_names c) (parameters' m)")
      case (Inl e)
      with Some ig show ?thesis by (simp add: model_export_def)
    next
      case ps: (Inr b)
      with ne have "parameters' m \<noteq> None" by (auto simp: pairs_def split: option.split_asm)
      with u have "conf' m = None" by simp
      with ne obtain e where "pairs (get_param_names c) (conf' m) = Inl e"
        using pairs_None by metis
      with Some ig ps show ?thesis by (simp add: model_export_def)
    qed
  qed
qed

theorem export_unfitted_raises_witness:
  "(parameters' unfitted_model = None \<or> conf' unfitted_model = None) \<and>
   (\<exists>e. model_export unfitted_model ''model.json'' Map.empty = (Inl e, Map.empty))"
proof -
  have u: "parameters' unfitted_model = None \<or> conf' unfitted_model = None"
    by (simp add: unfitted_model_def)
  from export_unfitted_raises[OF u] u show ?thesis by blast
qed

text \<open>
  Claim C1, at the fitted example. The export succeeds, and the import of the exported
  file raises \<^verbatim>\<open>TypeError\<close> instead of returning a model. The object it had built by
  then carries the initial guess 1 and 2 as its confidence vector, where the exported
  model had 0.5 and 0.25.
\<close>

theorem export_import_roundtrip_raises:
  "fst (model_export fitted_model ''model.json'' Map.empty) = Inr () \<and>
   model_import calculateCircuitLength ''model.json'' False
       (snd (model_export fitted_model ''model.json'' Map.empty)) =
     Inl (TypeError ''not all arguments converted during string formatting'') \<and>
   build_circuit_model calculateCircuitLength ''model.json'' False
       (snd (model_export fitted_model ''model.json'' Map.empty)) =
     Inr (fitted_model\<lparr>conf' := Some [1, 2]\<rparr>) \<and>
   conf' fitted_model = Some [1/2, 1/4]"
proof -
  have n: "get_param_names ''R_0-R_1'' = [''R_0'', ''R_1'']" by code_simp
  have p: "percent ''Exporting the following model to destination %s'' (Some ''model.json'') =
             Inr ''Exporting the following model to destination model.json''"
    by code_simp
  have e: "model_export fitted_model ''model.json'' Map.empty =
      (Inr (), [''model.json'' \<mapsto> Json
         \<lparr>Name = ''two resistors'', Circuit_String = ''R_0-R_1'',
          Initial_Guess = [(''R_0'', JFloat 1), (''R_1'', JFloat 2)],
          Parameters = [(''R_0'', JFloat 3), (''R_1'', JFloat 4)],
          Confidence = [(''R_0'', JFloat (1/2)), (''R_1'', JFloat (1/4))]\<rparr>])"
    by (simp add: model_export_def fitted_model_def n p pairs_def)
  have b: "build_circuit_model calculateCircuitLength ''model.json'' False
       (snd (model_export fitted_model ''model.json'' Map.empty)) =
     Inr (fitted_model\<lparr>conf' := Some [1, 2]\<rparr>)"
    unfolding e snd_conv
    by (simp add: build_circuit_model_def CustomCircuit_def BaseCircuit_def check_length_def
        length_examples fitted_model_def)
  have c: "conf' fitted_model = Some [1/2, 1/4]" by (simp add: fitted_model_def)
  show ?thesis
    unfolding b model_import_def import_print_raises using e c by simp
qed

text \<open>
  Claim C10, at the fitted example. With \<^verbatim>\<open>as_initial_guess=True\<close> the import builds
  the unfitted model whose initial guess is the fitted parameters 3 and 4, and then raises
  \<^verbatim>\<open>TypeError\<close> instead of returning it.
\<close>

theorem import_as_initial_guess_raises:
  "model_import calculateCircuitLength ''model.json'' True
       (snd (model_export fitted_model ''model.json'' Map.empty)) =
     Inl (TypeError ''not all arguments converted during string formatting'') \<and>
   build_circuit_model calculateCircuitLength ''model.json'' True
       (snd (model_export fitted_model ''model.json'' Map.empty)) =
     Inr (unfitted_model\<lparr>initial_guess := Some [PyFloat 3, PyFloat 4]\<rparr>)"
proof -
  have n: "get_param_names ''R_0-R_1'' = [''R_0'', ''R_1'']" by code_simp
  have p: "percent ''Exporting the following model to destination %s'' (Some ''model.json'') =
             Inr ''Exporting the following model to destination model.json''"
    by code_simp
  have e: "snd (model_export fitted_model ''model.json'' Map.empty) =
      [''model.json'' \<mapsto> Json
         \<lparr>Name = ''two resistors'', Circuit_String = ''R_0-R_1'',
          Initial_Guess = [(''R_0'', JFloat 1), (''R_1'', JFloat 2)],
          Parameters = [(''R_0'', JFloat 3), (''R_1'', JFloat 4)],
          Confidence = [(''R_0'', JFloat (1/2)), (''R_1'', JFloat (1/4))]\<rparr>]"
    by (simp add: model_export_def fitted_model_def n p pairs_def)
  have b: "build_circuit_model calculateCircuitLength ''model.json'' True
       (snd (model_export fitted_model ''model.json'' Map.empty)) =
     Inr (unfitted_model\<lparr>initial_guess := Some [PyFloat 3, PyFloat 4]\<rparr>)"
    unfolding e
    by (simp add: build_circuit_model_def CustomCircuit_def BaseCircuit_def check_length_def
        length_examples unfitted_model_def)
  show ?thesis
    unfolding b model_import_def import_print_raises by simp
qed

end
